theory Spec2Isabelle
  imports Complex_Main "HOL-Library.Log_Nat"
begin

section \<open>The trim plugin: data model\<close>

text \<open>
  The plugin (\<^verbatim>\<open>src/trim.py\<close>) keeps one \<^verbatim>\<open>TrimInstance\<close> per configured axis.
  The state machine is modelled over the real numbers, so its statements are about the
  arithmetic the code writes down; the section on double-precision arithmetic models
  the rounding of Python floats for the scaled blend, where rounding decides the
  outcome. Infinities and NaN are not modelled.
  The debug log is a side channel without effect on the state and is left out.
\<close>

text \<open>
  An endpoint descriptor (\<^verbatim>\<open>output_vjoy.value\<close>): the code reads \<^verbatim>\<open>device_id\<close> and
  \<^verbatim>\<open>input_id\<close> with \<^verbatim>\<open>.get\<close> / \<^verbatim>\<open>getattr(..., None)\<close>, so each may be absent.
\<close>

record endpoint =
  device_id :: "nat option"
  input_id :: "nat option"

text \<open>
  The configuration variables of lines 40--72 that the engine reads. A falsy
  \<^verbatim>\<open>output_vjoy.value\<close> is \<open>None\<close>.
\<close>

record config =
  trim_increment :: real
  trim_sensitivity :: real
  enable_scaled_trim :: bool
  auto_center_on_init :: bool
  output_vjoy :: "endpoint option"

text \<open>
  The ranges the two \<^verbatim>\<open>FloatVariable\<close> declarations give (lines 40--54):
  increment in [0.001, 0.1], sensitivity in [0.1, 3.0].
\<close>

definition legal_config :: "config \<Rightarrow> bool" where
  "legal_config cfg \<longleftrightarrow>
     1 / 1000 \<le> trim_increment cfg \<and> trim_increment cfg \<le> 1 / 10 \<and>
     1 / 10 \<le> trim_sensitivity cfg \<and> trim_sensitivity cfg \<le> 3"

text \<open>
  The host's vJoy proxy, as far as the engine sees it: the (device, axis) pairs it
  accepts a write for. A write to any other pair raises, and \<^verbatim>\<open>update_output\<close>
  catches the exception.
\<close>

type_synonym vjoy = "(nat \<times> nat) list"

text \<open>The fields of \<^verbatim>\<open>TrimInstance\<close> (lines 83--89); the id plays no role.\<close>

record trim_instance =
  current_trim_value :: real
  current_trim_offset :: real
  physical_value :: real
  vjoy_proxy :: "vjoy option"

text \<open>\<^verbatim>\<open>TrimInstance.__init__\<close>.\<close>

definition init_instance :: trim_instance where
  "init_instance =
     \<lparr>current_trim_value = 0, current_trim_offset = 0, physical_value = 0,
      vjoy_proxy = None\<rparr>"

text \<open>A write to an output axis: device id, axis id, value.\<close>

type_synonym axis_write = "nat \<times> nat \<times> real"

section \<open>The blending function\<close>

text \<open>\<^verbatim>\<open>calculate_trimmed_output\<close> (lines 103--127), branch for branch.\<close>

definition calculate_trimmed_output :: "config \<Rightarrow> real \<Rightarrow> real \<Rightarrow> real" where
  "calculate_trimmed_output cfg physical trim_offset =
     (if enable_scaled_trim cfg then
        (if physical \<ge> 0 then
           (if trim_offset \<ge> 0 then
              (let remaining_range = 1 - trim_offset in
               if remaining_range > 1 / 100
               then trim_offset + (physical * remaining_range)
               else 1)
            else trim_offset + (physical * (1 - trim_offset)))
         else
           (if trim_offset \<le> 0 then
              (let remaining_range = - 1 - trim_offset in
               if \<bar>remaining_range\<bar> > 1 / 100
               then trim_offset + (physical * \<bar>remaining_range\<bar>)
               else - 1)
            else trim_offset + (physical * (1 + trim_offset))))
      else physical + trim_offset)"

text \<open>
  The value \<^verbatim>\<open>output\<close> of \<^verbatim>\<open>update_output\<close> (lines 135--136): the blended
  value, then \<^verbatim>\<open>max(-1.0, min(1.0, output))\<close>.
\<close>

definition update_output_value :: "config \<Rightarrow> real \<Rightarrow> real \<Rightarrow> real" where
  "update_output_value cfg physical trim_offset =
     max (- 1) (min 1 (calculate_trimmed_output cfg physical trim_offset))"

text \<open>
  \<^verbatim>\<open>update_output\<close> (lines 129--151). It leaves the instance as it is; its effect is
  the write to the output axis, returned here (\<open>None\<close>: nothing written). Python's
  truth test \<^verbatim>\<open>device_id and input_id\<close> fails on \<^verbatim>\<open>None\<close> and on 0.
\<close>

definition update_output :: "config \<Rightarrow> trim_instance \<Rightarrow> axis_write option" where
  "update_output cfg s =
     (case (output_vjoy cfg, vjoy_proxy s) of
        (Some target, Some proxy) \<Rightarrow>
          (let output = update_output_value cfg (physical_value s) (current_trim_offset s) in
           case (device_id target, input_id target) of
             (Some d, Some i) \<Rightarrow>
               if d \<noteq> 0 \<and> i \<noteq> 0 \<and> (d, i) \<in> set proxy then Some (d, i, output) else None
           | _ \<Rightarrow> None)
      | _ \<Rightarrow> None)"

section \<open>The operations\<close>

text \<open>\<^verbatim>\<open>adjust_trim\<close> (lines 153--165): the new instance and the write it causes.\<close>

definition adjust_trim :: "config \<Rightarrow> real \<Rightarrow> trim_instance \<Rightarrow> trim_instance \<times> axis_write option" where
  "adjust_trim cfg delta s =
     (let s1 = s\<lparr>current_trim_value := current_trim_value s + delta\<rparr>;
          s2 = s1\<lparr>current_trim_value := max (- 1) (min 1 (current_trim_value s1))\<rparr>;
          s3 = s2\<lparr>current_trim_offset := current_trim_value s2 * trim_sensitivity cfg\<rparr>
      in (s3, update_output cfg s3))"

text \<open>\<^verbatim>\<open>reset_trim\<close> (lines 167--173).\<close>

definition reset_trim :: "config \<Rightarrow> trim_instance \<Rightarrow> trim_instance \<times> axis_write option" where
  "reset_trim cfg s =
     (let s1 = s\<lparr>current_trim_value := 0, current_trim_offset := 0\<rparr>
      in (s1, update_output cfg s1))"

text \<open>\<^verbatim>\<open>on_physical_axis\<close> (lines 186--190): the sample is stored as delivered.\<close>

definition on_physical_axis :: "config \<Rightarrow> real \<Rightarrow> vjoy \<Rightarrow> trim_instance \<Rightarrow> trim_instance \<times> axis_write option" where
  "on_physical_axis cfg event_value vjoy s =
     (let s1 = s\<lparr>vjoy_proxy := Some vjoy, physical_value := event_value\<rparr>
      in (s1, update_output cfg s1))"

text \<open>\<^verbatim>\<open>on_trim_up\<close>, \<^verbatim>\<open>on_trim_down\<close>, \<^verbatim>\<open>on_reset\<close> (lines 202--238): a release does nothing.\<close>

definition on_trim_up :: "config \<Rightarrow> bool \<Rightarrow> vjoy \<Rightarrow> trim_instance \<Rightarrow> trim_instance \<times> axis_write option" where
  "on_trim_up cfg is_pressed vjoy s =
     (if is_pressed then adjust_trim cfg (trim_increment cfg) (s\<lparr>vjoy_proxy := Some vjoy\<rparr>)
      else (s, None))"

definition on_trim_down :: "config \<Rightarrow> bool \<Rightarrow> vjoy \<Rightarrow> trim_instance \<Rightarrow> trim_instance \<times> axis_write option" where
  "on_trim_down cfg is_pressed vjoy s =
     (if is_pressed then adjust_trim cfg (- trim_increment cfg) (s\<lparr>vjoy_proxy := Some vjoy\<rparr>)
      else (s, None))"

definition on_reset :: "config \<Rightarrow> bool \<Rightarrow> vjoy \<Rightarrow> trim_instance \<Rightarrow> trim_instance \<times> axis_write option" where
  "on_reset cfg is_pressed vjoy s =
     (if is_pressed then reset_trim cfg (s\<lparr>vjoy_proxy := Some vjoy\<rparr>)
      else (s, None))"

text \<open>\<^verbatim>\<open>plugin_init\<close> (lines 245--256); it writes nothing to the output axis.\<close>

definition plugin_init :: "config \<Rightarrow> trim_instance \<Rightarrow> trim_instance" where
  "plugin_init cfg s =
     (let s1 = s\<lparr>physical_value := 0\<rparr>
      in if auto_center_on_init cfg
         then s1\<lparr>current_trim_value := 0, current_trim_offset := 0\<rparr>
         else s1)"

section \<open>Runs of the engine\<close>

text \<open>What the host can deliver to one instance.\<close>

datatype event =
    PhysicalAxis real vjoy
  | TrimUp bool vjoy
  | TrimDown bool vjoy
  | Reset bool vjoy
  | PluginInit

fun handle :: "config \<Rightarrow> event \<Rightarrow> trim_instance \<Rightarrow> trim_instance \<times> axis_write option" where
  "handle cfg (PhysicalAxis v vj) s = on_physical_axis cfg v vj s"
| "handle cfg (TrimUp p vj) s = on_trim_up cfg p vj s"
| "handle cfg (TrimDown p vj) s = on_trim_down cfg p vj s"
| "handle cfg (Reset p vj) s = on_reset cfg p vj s"
| "handle cfg PluginInit s = (plugin_init cfg s, None)"

text \<open>The instance after a sequence of events, oldest first.\<close>

fun run :: "config \<Rightarrow> event list \<Rightarrow> trim_instance \<Rightarrow> trim_instance" where
  "run cfg [] s = s"
| "run cfg (e # es) s = run cfg es (fst (handle cfg e s))"

text \<open>The spec's \<open>clamp(x, lo, hi)\<close>, by cases.\<close>

definition clamp :: "real \<Rightarrow> real \<Rightarrow> real \<Rightarrow> real" where
  "clamp x lo hi = (if x < lo then lo else if x > hi then hi else x)"


text \<open>
  The scaled-mode algorithm in the spec's words (section 4.1), before the final clamp:
  four cases by the signs of the physical value \<open>v\<close> and the trim offset \<open>t\<close>.
\<close>

definition spec_scaled_output :: "real \<Rightarrow> real \<Rightarrow> real" where
  "spec_scaled_output v t =
     (if v \<ge> 0 \<and> t \<ge> 0 then (if 1 - t > 1 / 100 then t + v * (1 - t) else 1)
      else if v \<ge> 0 \<and> t < 0 then t + v * (1 - t)
      else if v < 0 \<and> t \<le> 0 then
        (if \<bar>- 1 - t\<bar> > 1 / 100 then t + v * \<bar>- 1 - t\<bar> else - 1)
      else t + v * (1 + t))"

text \<open>
  What every operation keeps true of the trim fields: the trim value is in [-1, 1] and
  the trim offset is the trim value times the sensitivity.
\<close>

definition trim_inv :: "config \<Rightarrow> trim_instance \<Rightarrow> bool" where
  "trim_inv cfg s \<longleftrightarrow>
     - 1 \<le> current_trim_value s \<and> current_trim_value s \<le> 1 \<and>
     current_trim_offset s = current_trim_value s * trim_sensitivity cfg"

text \<open>Every physical sample of an event sequence lies in [-1, 1].\<close>

fun samples_in_range :: "event list \<Rightarrow> bool" where
  "samples_in_range [] = True"
| "samples_in_range (PhysicalAxis v vj # es) = (- 1 \<le> v \<and> v \<le> 1 \<and> samples_in_range es)"
| "samples_in_range (e # es) = samples_in_range es"

text \<open>\<open>n\<close> calls of \<^verbatim>\<open>adjust_trim(delta)\<close> in a row.\<close>

fun adjust_trim_times :: "config \<Rightarrow> real \<Rightarrow> nat \<Rightarrow> trim_instance \<Rightarrow> trim_instance" where
  "adjust_trim_times cfg delta 0 s = s"
| "adjust_trim_times cfg delta (Suc n) s = adjust_trim_times cfg delta n (fst (adjust_trim cfg delta s))"

text \<open>
  Concrete configurations used to evaluate the engine: the additive and the scaled
  scenario of the spec's section 8 (sensitivity 1.0, increment 0.01, output bound to
  axis 1 of device 1), and a legal configuration at the upper end of both ranges.
\<close>

definition scenario_additive :: config where
  "scenario_additive =
     \<lparr>trim_increment = 1 / 100, trim_sensitivity = 1, enable_scaled_trim = False,
      auto_center_on_init = True,
      output_vjoy = Some \<lparr>device_id = Some 1, input_id = Some 1\<rparr>\<rparr>"

definition scenario_scaled :: config where
  "scenario_scaled =
     \<lparr>trim_increment = 1 / 100, trim_sensitivity = 1, enable_scaled_trim = True,
      auto_center_on_init = True,
      output_vjoy = Some \<lparr>device_id = Some 1, input_id = Some 1\<rparr>\<rparr>"

definition wide_config :: config where
  "wide_config =
     \<lparr>trim_increment = 1 / 10, trim_sensitivity = 3, enable_scaled_trim = True,
      auto_center_on_init = True,
      output_vjoy = Some \<lparr>device_id = Some 1, input_id = Some 1\<rparr>\<rparr>"

definition one_axis :: vjoy where
  "one_axis = [(1, 1)]"

section \<open>Double-precision arithmetic\<close>

text \<open>
  Python's \<^verbatim>\<open>float\<close> is the IEEE 754 binary64 format, and the blend of
  \<^verbatim>\<open>calculate_trimmed_output\<close> depends on its rounding near the 0.01 threshold and at
  full deflection. This section models finite doubles as the real numbers they denote,
  with every arithmetic result rounded to the nearest double, ties to the even
  significand. Overflow to infinity and NaN are not modelled.
\<close>

text \<open>Round a real to the nearest integer, a tie to the even neighbour.\<close>

definition round_even :: "real \<Rightarrow> int" where
  "round_even y =
     (let n = \<lfloor>y\<rfloor>; r = y - of_int n
      in if r < 1 / 2 then n else if 1 / 2 < r then n + 1 else if even n then n else n + 1)"

text \<open>The binary exponent of a nonzero real: \<open>2 powi lg2 x \<le> \<bar>x\<bar> < 2 powi (lg2 x + 1)\<close>.\<close>

definition lg2 :: "real \<Rightarrow> int" where
  "lg2 x = (if 1 \<le> \<bar>x\<bar> then bitlen \<lfloor>\<bar>x\<bar>\<rfloor> - 1 else - bitlen (\<lceil>1 / \<bar>x\<bar>\<rceil> - 1))"

text \<open>
  The exponent of the last place of a double near \<open>x\<close>: 53 significant bits, and never
  below the subnormal spacing \<open>2 powi (-1074)\<close>.
\<close>

definition ulp_exp :: "real \<Rightarrow> int" where
  "ulp_exp x = max (- 1074) (lg2 x - 52)"

text \<open>Round to the nearest multiple of \<open>2 powi e\<close>.\<close>

definition rnd_at :: "int \<Rightarrow> real \<Rightarrow> real" where
  "rnd_at e x = of_int (round_even (x / 2 powi e)) * 2 powi e"

text \<open>Round to the nearest double.\<close>

definition rnd :: "real \<Rightarrow> real" where
  "rnd x = (if x = 0 then 0 else rnd_at (ulp_exp x) x)"

text \<open>The finite doubles.\<close>

definition is_double :: "real \<Rightarrow> bool" where
  "is_double x \<longleftrightarrow> rnd x = x \<and> \<bar>x\<bar> < 2 ^ 1024"

text \<open>Python's \<^verbatim>\<open>+\<close>, \<^verbatim>\<open>-\<close> and \<^verbatim>\<open>*\<close> on floats: the exact result, rounded.\<close>

definition fadd :: "real \<Rightarrow> real \<Rightarrow> real" where
  "fadd x y = rnd (x + y)"

definition fsub :: "real \<Rightarrow> real \<Rightarrow> real" where
  "fsub x y = rnd (x - y)"

definition fmul :: "real \<Rightarrow> real \<Rightarrow> real" where
  "fmul x y = rnd (x * y)"

text \<open>
  \<^verbatim>\<open>calculate_trimmed_output\<close> (lines 103--127) as Python executes it on doubles: the
  same branches, each operation rounded, and the literal \<^verbatim>\<open>0.01\<close> standing for the
  double nearest to 1/100. The literals \<^verbatim>\<open>1.0\<close> and \<^verbatim>\<open>-1.0\<close>, \<^verbatim>\<open>abs\<close> and the comparisons
  are exact.
\<close>

definition calculate_trimmed_output_double :: "config \<Rightarrow> real \<Rightarrow> real \<Rightarrow> real" where
  "calculate_trimmed_output_double cfg physical trim_offset =
     (if enable_scaled_trim cfg then
        (if physical \<ge> 0 then
           (if trim_offset \<ge> 0 then
              (let remaining_range = fsub 1 trim_offset in
               if remaining_range > rnd (1 / 100)
               then fadd trim_offset (fmul physical remaining_range)
               else 1)
            else fadd trim_offset (fmul physical (fsub 1 trim_offset)))
         else
           (if trim_offset \<le> 0 then
              (let remaining_range = fsub (- 1) trim_offset in
               if \<bar>remaining_range\<bar> > rnd (1 / 100)
               then fadd trim_offset (fmul physical \<bar>remaining_range\<bar>)
               else - 1)
            else fadd trim_offset (fmul physical (fadd 1 trim_offset))))
      else fadd physical trim_offset)"

text \<open>The value \<^verbatim>\<open>output\<close> of \<^verbatim>\<open>update_output\<close> (lines 135--136) on doubles.\<close>

definition update_output_value_double :: "config \<Rightarrow> real \<Rightarrow> real \<Rightarrow> real" where
  "update_output_value_double cfg physical trim_offset =
     max (- 1) (min 1 (calculate_trimmed_output_double cfg physical trim_offset))"

section \<open>Properties\<close>

subsection \<open>Shared facts\<close>

lemma clamp_max_min: "clamp x (- 1) 1 = max (- 1) (min 1 x)"
  by (simp add: clamp_def max_def min_def)

lemma update_output_written:
  "update_output cfg s = Some (d, i, out) \<Longrightarrow>
   out = update_output_value cfg (physical_value s) (current_trim_offset s)"
  by (auto simp: update_output_def Let_def split: option.splits if_splits)

lemma handle_inv: "trim_inv cfg s \<Longrightarrow> trim_inv cfg (fst (handle cfg e s))"
  by (cases e)
     (auto simp: trim_inv_def on_physical_axis_def on_trim_up_def on_trim_down_def
        on_reset_def plugin_init_def adjust_trim_def reset_trim_def Let_def)

lemma run_inv: "trim_inv cfg s \<Longrightarrow> trim_inv cfg (run cfg es s)"
  by (induction es arbitrary: s) (simp_all add: handle_inv)

lemma init_inv: "trim_inv cfg init_instance"
  by (simp add: trim_inv_def init_instance_def)

lemma handle_physical_range:
  "samples_in_range [e] \<Longrightarrow> - 1 \<le> physical_value s \<Longrightarrow> physical_value s \<le> 1 \<Longrightarrow>
   - 1 \<le> physical_value (fst (handle cfg e s)) \<and> physical_value (fst (handle cfg e s)) \<le> 1"
  by (cases e)
     (auto simp: on_physical_axis_def on_trim_up_def on_trim_down_def
        on_reset_def plugin_init_def adjust_trim_def reset_trim_def Let_def)

lemma samples_in_range_Cons:
  "samples_in_range (e # es) \<longleftrightarrow> samples_in_range [e] \<and> samples_in_range es"
  by (cases e) simp_all

lemma run_physical_range:
  "samples_in_range es \<Longrightarrow> - 1 \<le> physical_value s \<Longrightarrow> physical_value s \<le> 1 \<Longrightarrow>
   - 1 \<le> physical_value (run cfg es s) \<and> physical_value (run cfg es s) \<le> 1"
proof (induction es arbitrary: s)
  case Nil
  then show ?case by simp
next
  case (Cons e es)
  from Cons.prems(1) have one: "samples_in_range [e]" and rest: "samples_in_range es"
    using samples_in_range_Cons [of e es] by simp_all
  have "- 1 \<le> physical_value (fst (handle cfg e s)) \<and> physical_value (fst (handle cfg e s)) \<le> 1"
    using handle_physical_range [OF one Cons.prems(2) Cons.prems(3)] .
  then show ?case
    using Cons.IH [OF rest, of "fst (handle cfg e s)"] by simp
qed

lemma adjust_trim_value:
  "current_trim_value (fst (adjust_trim cfg delta s)) = max (- 1) (min 1 (current_trim_value s + delta))"
  by (simp add: adjust_trim_def Let_def)

lemma adjust_trim_offset:
  "current_trim_offset (fst (adjust_trim cfg delta s)) =
   current_trim_value (fst (adjust_trim cfg delta s)) * trim_sensitivity cfg"
  by (simp add: adjust_trim_def Let_def)

lemma adjust_trim_times_at_one:
  "current_trim_value s = 1 \<Longrightarrow> current_trim_value (adjust_trim_times cfg (1 / 2) n s) = 1"
proof (induction n arbitrary: s)
  case 0
  then show ?case by simp
next
  case (Suc n)
  have "current_trim_value (fst (adjust_trim cfg (1 / 2) s)) = 1"
    using Suc.prems by (simp add: adjust_trim_value)
  then show ?case
    using Suc.IH by simp
qed

lemma offset_abs_bound:
  assumes "- 1 \<le> (x::real)" "x \<le> 1" "0 \<le> k"
  shows "\<bar>x * k\<bar> \<le> k"
proof -
  have "\<bar>x * k\<bar> = \<bar>x\<bar> * k" using assms(3) by (simp add: abs_mult)
  also have "\<dots> \<le> 1 * k"
    using assms by (intro mult_right_mono) auto
  finally show ?thesis by simp
qed

subsection \<open>Rounding to doubles\<close>

lemma round_even_of_int: "round_even (of_int n) = n"
  by (simp add: round_even_def)

lemma round_even_floor: "\<lfloor>y\<rfloor> \<le> round_even y \<and> round_even y \<le> \<lfloor>y\<rfloor> + 1"
  by (simp add: round_even_def Let_def)


lemma round_even_mono:
  assumes "y \<le> y'"
  shows "round_even y \<le> round_even y'"
proof (cases "\<lfloor>y\<rfloor> = \<lfloor>y'\<rfloor>")
  case True
  then show ?thesis
    using assms by (auto simp: round_even_def Let_def)
next
  case False
  have "\<lfloor>y\<rfloor> \<le> \<lfloor>y'\<rfloor>" using assms by (rule floor_mono)
  with False have "\<lfloor>y\<rfloor> + 1 \<le> \<lfloor>y'\<rfloor>" by simp
  then show ?thesis
    using round_even_floor [of y] round_even_floor [of y'] by linarith
qed

lemma round_even_uminus: "round_even (- y) = - round_even y"
proof (cases "y \<in> \<int>")
  case True
  then obtain n where "y = of_int n" by (auto elim: Ints_cases)
  then show ?thesis
    using round_even_of_int [of n] round_even_of_int [of "- n"] by simp
next
  case False
  define n where "n = \<lfloor>y\<rfloor>"
  have "y \<noteq> of_int n" using False by (metis Ints_of_int)
  moreover have "of_int n \<le> y" "y < of_int n + 1" unfolding n_def by linarith+
  ultimately have strict: "of_int n < y" "y < of_int n + 1" by simp_all
  have fl: "\<lfloor>- y\<rfloor> = - n - 1"
    using strict by (intro floor_unique) simp_all
  have a: "round_even y =
     (if y - of_int n < 1 / 2 then n else if 1 / 2 < y - of_int n then n + 1
      else if even n then n else n + 1)"
    by (simp add: round_even_def Let_def n_def)
  have b: "round_even (- y) =
     (if - y - of_int (- n - 1) < 1 / 2 then - n - 1
      else if 1 / 2 < - y - of_int (- n - 1) then - n - 1 + 1
      else if even (- n - 1) then - n - 1 else - n - 1 + 1)"
    by (simp add: round_even_def Let_def fl)
  show ?thesis
    unfolding a b by (auto split: if_splits)
qed

lemma lg2_bounds:
  assumes "x \<noteq> 0"
  shows "2 powi lg2 x \<le> \<bar>x\<bar> \<and> \<bar>x\<bar> < 2 powi (lg2 x + 1)"
proof (cases "1 \<le> \<bar>x\<bar>")
  case True
  define n where "n = \<lfloor>\<bar>x\<bar>\<rfloor>"
  have n: "0 < n" using True by (simp add: n_def)
  from bitlen_bounds [OF n]
  have b: "2 ^ nat (bitlen n - 1) \<le> n" "n < 2 ^ nat (bitlen n)" by simp_all
  have pos: "0 < bitlen n" using n by (simp add: bitlen_alt_def)
  have lg: "lg2 x = bitlen n - 1" using True by (simp add: lg2_def n_def)
  have "(2::real) ^ nat (bitlen n - 1) \<le> of_int n"
    using b(1) by (metis of_int_le_iff of_int_numeral of_int_power)
  also have "\<dots> \<le> \<bar>x\<bar>" by (simp add: n_def)
  finally have lo: "2 powi lg2 x \<le> \<bar>x\<bar>"
    using pos by (simp add: lg power_int_def)
  have "n + 1 \<le> 2 ^ nat (bitlen n)" using b(2) by simp
  then have "of_int (n + 1) \<le> (2::real) ^ nat (bitlen n)"
    by (metis of_int_le_iff of_int_numeral of_int_power)
  moreover have "\<bar>x\<bar> < of_int (n + 1)" by (simp add: n_def)
  ultimately have "\<bar>x\<bar> < 2 powi (lg2 x + 1)"
    using pos by (simp add: lg power_int_def)
  with lo show ?thesis by simp
next
  case False
  define y where "y = 1 / \<bar>x\<bar>"
  define m where "m = \<lceil>y\<rceil> - 1"
  have x: "0 < \<bar>x\<bar>" "\<bar>x\<bar> < 1" using assms False by simp_all
  then have y1: "1 < y" by (simp add: y_def)
  then have m: "0 < m" by (simp add: m_def)
  from bitlen_bounds [OF m]
  have b: "2 ^ nat (bitlen m - 1) \<le> m" "m < 2 ^ nat (bitlen m)" by simp_all
  have pos: "0 < bitlen m" using m by (simp add: bitlen_alt_def)
  have lg: "lg2 x = - bitlen m" using False by (simp add: lg2_def m_def y_def)
  have my: "of_int m < y" "y \<le> of_int m + 1"
    unfolding m_def by linarith+
  have "m + 1 \<le> 2 ^ nat (bitlen m)" using b(2) by simp
  then have "of_int (m + 1) \<le> (2::real) ^ nat (bitlen m)"
    by (metis of_int_le_iff of_int_numeral of_int_power)
  with my(2) have yle: "y \<le> 2 ^ nat (bitlen m)" by simp
  have "(2::real) ^ nat (bitlen m - 1) \<le> of_int m"
    using b(1) by (metis of_int_le_iff of_int_numeral of_int_power)
  with my(1) have ygt: "2 ^ nat (bitlen m - 1) < y" by linarith
  have xy: "\<bar>x\<bar> = 1 / y" using x by (simp add: y_def)
  have lo: "2 powi lg2 x \<le> \<bar>x\<bar>"
  proof -
    have "1 / 2 ^ nat (bitlen m) \<le> 1 / y"
      using yle y1 by (simp add: frac_le)
    moreover have "2 powi lg2 x = 1 / (2::real) ^ nat (bitlen m)"
      using pos by (simp add: lg power_int_def field_simps)
    ultimately show ?thesis by (simp add: xy)
  qed
  have hi: "\<bar>x\<bar> < 2 powi (lg2 x + 1)"
  proof -
    have "1 / y < 1 / 2 ^ nat (bitlen m - 1)"
      using ygt by (simp add: frac_less2)
    moreover have "2 powi (lg2 x + 1) = 1 / (2::real) ^ nat (bitlen m - 1)"
    proof (cases "bitlen m = 1")
      case True
      then show ?thesis by (simp add: lg)
    next
      case False
      with pos have "- bitlen m + 1 < 0" by simp
      moreover have "nat (- (- bitlen m + 1)) = nat (bitlen m - 1)" by simp
      ultimately show ?thesis
        by (simp add: lg power_int_def field_simps)
    qed
    ultimately show ?thesis by (simp add: xy)
  qed
  from lo hi show ?thesis by simp
qed


lemma two_powi_pos: "0 < (2::real) powi k"
  by simp

lemma two_powi_le: "a \<le> b \<Longrightarrow> (2::real) powi a \<le> 2 powi b"
  by (rule power_int_increasing) simp_all

lemma two_powi_less_imp: "(2::real) powi a < 2 powi b \<Longrightarrow> a < b"
  using two_powi_le [of b a] by (cases "a < b") simp_all

lemma lg2_unique:
  assumes "2 powi k \<le> \<bar>x\<bar>" "\<bar>x\<bar> < 2 powi (k + 1)"
  shows "lg2 x = k"
proof -
  have "0 < \<bar>x\<bar>" using assms(1) two_powi_pos [of k] by linarith
  then have "x \<noteq> 0" by simp
  then have b: "2 powi lg2 x \<le> \<bar>x\<bar>" "\<bar>x\<bar> < 2 powi (lg2 x + 1)"
    using lg2_bounds by simp_all
  have "(2::real) powi lg2 x < 2 powi (k + 1)" using b(1) assms(2) by linarith
  then have "lg2 x < k + 1" by (rule two_powi_less_imp)
  moreover have "(2::real) powi k < 2 powi (lg2 x + 1)" using b(2) assms(1) by linarith
  then have "k < lg2 x + 1" by (rule two_powi_less_imp)
  ultimately show ?thesis by simp
qed

lemma lg2_mono:
  assumes "x \<noteq> 0" "\<bar>x\<bar> \<le> \<bar>y\<bar>"
  shows "lg2 x \<le> lg2 y"
proof -
  have "y \<noteq> 0" using assms by auto
  then have "\<bar>y\<bar> < 2 powi (lg2 y + 1)" using lg2_bounds by simp
  moreover have "2 powi lg2 x \<le> \<bar>x\<bar>" using assms(1) lg2_bounds by simp
  ultimately have "(2::real) powi lg2 x < 2 powi (lg2 y + 1)" using assms(2) by linarith
  then have "lg2 x < lg2 y + 1" by (rule two_powi_less_imp)
  then show ?thesis by simp
qed

lemma lg2_uminus: "lg2 (- x) = lg2 x"
  by (simp add: lg2_def)

lemma ulp_exp_uminus: "ulp_exp (- x) = ulp_exp x"
  by (simp add: ulp_exp_def lg2_uminus)

lemma rnd_at_uminus: "rnd_at e (- x) = - rnd_at e x"
  by (simp add: rnd_at_def round_even_uminus)

lemma rnd_uminus: "rnd (- x) = - rnd x"
  by (simp add: rnd_def ulp_exp_uminus rnd_at_uminus)

lemma rnd_at_mono: "x \<le> y \<Longrightarrow> rnd_at e x \<le> rnd_at e y"
proof -
  assume "x \<le> y"
  then have "x / 2 powi e \<le> y / 2 powi e"
    by (simp add: divide_right_mono)
  then have "round_even (x / 2 powi e) \<le> round_even (y / 2 powi e)"
    by (rule round_even_mono)
  then show ?thesis
    by (simp add: rnd_at_def)
qed

lemma rnd_at_grid: "rnd_at e (of_int n * 2 powi e) = of_int n * 2 powi e"
  by (simp add: rnd_at_def round_even_of_int)

lemma rnd_at_le_grid: "x \<le> of_int n * 2 powi e \<Longrightarrow> rnd_at e x \<le> of_int n * 2 powi e"
  using rnd_at_mono [of x "of_int n * 2 powi e" e] by (simp add: rnd_at_grid)

lemma rnd_at_ge_grid: "of_int n * 2 powi e \<le> x \<Longrightarrow> of_int n * 2 powi e \<le> rnd_at e x"
  using rnd_at_mono [of "of_int n * 2 powi e" x e] by (simp add: rnd_at_grid)


lemma two_powi_on_grid:
  assumes "e \<le> k"
  shows "(2::real) powi k = of_int (2 ^ nat (k - e)) * 2 powi e"
proof -
  have "(2::real) powi k = 2 powi (k - e) * 2 powi e"
    by (simp add: power_int_add [symmetric])
  moreover have "(2::real) powi (k - e) = 2 ^ nat (k - e)"
    using assms by (simp add: power_int_def)
  ultimately show ?thesis by simp
qed

lemma rnd_nonneg: "0 \<le> x \<Longrightarrow> 0 \<le> rnd x"
  using rnd_at_ge_grid [of 0 "ulp_exp x" x] by (simp add: rnd_def)

lemma rnd_nonpos: "x \<le> 0 \<Longrightarrow> rnd x \<le> 0"
  using rnd_at_le_grid [of x 0 "ulp_exp x"] by (simp add: rnd_def)

lemma ulp_exp_mono: "x \<noteq> 0 \<Longrightarrow> \<bar>x\<bar> \<le> \<bar>y\<bar> \<Longrightarrow> ulp_exp x \<le> ulp_exp y"
  using lg2_mono [of x y] by (simp add: ulp_exp_def)

lemma rnd_mono_pos:
  assumes "0 < x" "x \<le> y"
  shows "rnd x \<le> rnd y"
proof (cases "ulp_exp x = ulp_exp y")
  case True
  then show ?thesis
    using assms rnd_at_mono [of x y "ulp_exp y"] by (simp add: rnd_def)
next
  case False
  have x0: "x \<noteq> 0" and y0: "y \<noteq> 0" using assms by simp_all
  have "ulp_exp x \<le> ulp_exp y" using assms by (intro ulp_exp_mono) simp_all
  with False have lt: "ulp_exp x < ulp_exp y" by simp
  then have ey: "ulp_exp y = lg2 y - 52" and up: "- 1074 < lg2 y - 52"
    by (simp_all add: ulp_exp_def max_def split: if_splits)
  have "lg2 x - 52 \<le> ulp_exp x" by (simp add: ulp_exp_def)
  with lt ey have lgs: "lg2 x + 1 \<le> lg2 y" by simp
  define g where "g = (2::real) powi lg2 y"
  have "x < 2 powi (lg2 x + 1)" using lg2_bounds [OF x0] assms(1) by simp
  also have "\<dots> \<le> g" unfolding g_def using lgs by (rule two_powi_le)
  finally have xg: "x \<le> g" by simp
  have gy: "g \<le> y" using lg2_bounds [OF y0] assms by (simp add: g_def)
  have gx: "g = of_int (2 ^ nat (lg2 y - ulp_exp x)) * 2 powi ulp_exp x"
    unfolding g_def using lt ey by (intro two_powi_on_grid) simp
  have gyy: "g = of_int (2 ^ nat (lg2 y - ulp_exp y)) * 2 powi ulp_exp y"
    unfolding g_def using ey by (intro two_powi_on_grid) simp
  have "rnd_at (ulp_exp x) x \<le> g"
    using xg rnd_at_le_grid [of x "2 ^ nat (lg2 y - ulp_exp x)" "ulp_exp x"] gx by simp
  moreover have "g \<le> rnd_at (ulp_exp y) y"
    using gy rnd_at_ge_grid [of "2 ^ nat (lg2 y - ulp_exp y)" "ulp_exp y" y] gyy by simp
  ultimately show ?thesis
    using x0 y0 by (simp add: rnd_def)
qed

lemma rnd_mono:
  assumes "x \<le> y"
  shows "rnd x \<le> rnd y"
proof -
  consider "0 < x" | "x \<le> 0" "0 \<le> y" | "y < 0" by linarith
  then show ?thesis
  proof cases
    case 1
    then show ?thesis using assms by (rule rnd_mono_pos)
  next
    case 2
    then show ?thesis using rnd_nonpos [of x] rnd_nonneg [of y] by simp
  next
    case 3
    then have "rnd (- y) \<le> rnd (- x)" using assms by (intro rnd_mono_pos) simp_all
    then show ?thesis by (simp add: rnd_uminus)
  qed
qed

lemma rnd_on_grid:
  assumes "x = of_int m * 2 powi e" "ulp_exp x \<le> e"
  shows "rnd x = x"
proof (cases "x = 0")
  case True
  then show ?thesis by (simp add: rnd_def)
next
  case False
  define u where "u = ulp_exp x"
  have "2 powi e = of_int (2 ^ nat (e - u)) * (2::real) powi u"
    using assms(2) unfolding u_def by (intro two_powi_on_grid)
  then have "x = of_int (m * 2 ^ nat (e - u)) * 2 powi u"
    using assms(1) by simp
  then have "rnd_at u x = x"
    using rnd_at_grid [of u "m * 2 ^ nat (e - u)"] by simp
  then show ?thesis using False by (simp add: rnd_def u_def)
qed

lemma rnd_representable:
  assumes "\<bar>m\<bar> < 2 ^ 53" "- 1074 \<le> e"
  shows "rnd (of_int m * 2 powi e) = of_int m * 2 powi e"
proof (cases "m = 0")
  case True
  then show ?thesis by (simp add: rnd_def)
next
  case False
  define x :: real where "x = of_int m * 2 powi e"
  have x0: "x \<noteq> 0" using False by (simp add: x_def)
  have "\<bar>of_int m :: real\<bar> < 2 ^ 53"
    using assms(1) by (metis of_int_abs of_int_less_iff of_int_numeral of_int_power)
  then have "\<bar>x\<bar> < 2 ^ 53 * 2 powi e"
    by (simp add: x_def abs_mult)
  also have "\<dots> = 2 powi (e + 53)"
    by (simp add: power_int_add)
  finally have "\<bar>x\<bar> < 2 powi (e + 53)" .
  moreover have "2 powi lg2 x \<le> \<bar>x\<bar>" using lg2_bounds [OF x0] by simp
  ultimately have "(2::real) powi lg2 x < 2 powi (e + 53)" by linarith
  then have "lg2 x < e + 53" by (rule two_powi_less_imp)
  then have "ulp_exp x \<le> e" using assms(2) by (simp add: ulp_exp_def)
  then show ?thesis
    using rnd_on_grid [of x m e] by (simp add: x_def)
qed




lemma rnd_one: "rnd 1 = 1"
  using rnd_representable [of 1 0] by simp

lemma rnd_minus_one: "rnd (- 1) = - 1"
  using rnd_uminus [of 1] by (simp add: rnd_one)

lemma ulp_exp_binade:
  assumes "1 / 2 \<le> x" "x < 1"
  shows "ulp_exp x = - 53"
proof -
  have "lg2 x = - 1"
    using assms by (intro lg2_unique) (simp_all add: power_int_minus)
  then show ?thesis by (simp add: ulp_exp_def)
qed

lemma double_binade_grid:
  assumes "rnd x = x" "1 / 2 \<le> x" "x < 1"
  obtains m :: int where "x = of_int m / 2 ^ 53"
proof -
  have "x \<noteq> 0" using assms(2) by simp
  then have "rnd x = of_int (round_even (x / 2 powi (- 53))) * 2 powi (- 53)"
    using ulp_exp_binade [OF assms(2,3)] by (simp add: rnd_def rnd_at_def)
  then have "x = of_int (round_even (x / 2 powi (- 53))) / 2 ^ 53"
    using assms(1) by (simp add: power_int_minus field_simps)
  then show ?thesis by (rule that)
qed






lemma lit_001: "rnd (1 / 100) = 5764607523034235 / 2 ^ 59"
  by code_simp

lemma lit_099: "rnd (99 / 100) = 4458563631096791 / 2 ^ 52"
  by code_simp




lemma headroom_small:
  assumes "is_double t" "rnd (99 / 100) < t"
  shows "rnd (1 - t) \<le> rnd (1 / 100)"
proof (cases "t < 1")
  case False
  then have "rnd (1 - t) \<le> 0" by (intro rnd_nonpos) simp
  then show ?thesis by (simp add: lit_001)
next
  case True
  have half: "1 / 2 \<le> t" using assms(2) by (simp add: lit_099)
  have fx: "rnd t = t" using assms(1) by (simp add: is_double_def)
  from double_binade_grid [OF fx half True]
  obtain m :: int where m: "t = of_int m / 2 ^ 53" .
  have "8917127262193582 < (of_int m :: real)"
    using assms(2) by (simp add: m lit_099 field_simps)
  then have "8917127262193582 < m" by simp
  then have "8917127262193583 \<le> m" by simp
  then have "8917127262193583 \<le> (of_int m :: real)" by simp
  then have "1 - t \<le> 1 / 100" by (simp add: m field_simps)
  then show ?thesis by (rule rnd_mono)
qed

lemma is_double_uminus: "is_double (- t) = is_double t"
  by (simp add: is_double_def rnd_uminus)






lemma is_double_representable:
  assumes "\<bar>m\<bar> < 2 ^ 53" "- 1074 \<le> e" "e \<le> 0"
  shows "is_double (of_int m * 2 powi e)"
proof -
  have "\<bar>of_int m :: real\<bar> < 2 ^ 53"
    using assms(1) by (metis of_int_abs of_int_less_iff of_int_numeral of_int_power)
  moreover have "(2::real) powi e \<le> 2 powi 0" using assms(3) by (rule two_powi_le)
  ultimately have "\<bar>of_int m :: real\<bar> * 2 powi e < 2 ^ 53 * 1"
    by (intro mult_less_le_imp_less) simp_all
  also have "\<dots> < (2::real) ^ 1024" by simp
  finally have "\<bar>of_int m * (2::real) powi e\<bar> < 2 ^ 1024"
    by (simp add: abs_mult)
  then show ?thesis
    using rnd_representable [OF assms(1,2)] by (simp add: is_double_def)
qed


lemma is_double_lit_099: "is_double (rnd (99 / 100))"
  using is_double_representable [of 4458563631096791 "- 52"]
  by (simp add: lit_099 power_int_minus field_simps)

lemma is_double_above_099: "is_double (8917127262193583 / 2 ^ 53)"
  using is_double_representable [of 8917127262193583 "- 53"]
  by (simp add: power_int_minus field_simps)



subsection \<open>The stored physical value\<close>

text \<open>
  C1, as stated, fails: \<^verbatim>\<open>on_physical_axis\<close> stores the sample without clamping it,
  so the out-of-range sample 2 leaves the physical value at 2, outside [-1, 1].
\<close>

theorem physical_value_unclamped_counterexample:
  "\<not> (- 1 \<le> physical_value (fst (on_physical_axis scenario_additive 2 one_axis init_instance)) \<and>
      physical_value (fst (on_physical_axis scenario_additive 2 one_axis init_instance)) \<le> 1)"
  by (simp add: on_physical_axis_def Let_def)

text \<open>
  C1, amended: \<^verbatim>\<open>on_physical_axis\<close> stores the delivered sample unchanged; the
  physical value lies in [-1, 1] after every sequence of operations whose samples all
  lie in [-1, 1]; whatever the sample, the value written to the output axis is in
  [-1, 1].
\<close>

theorem physical_value_stored_as_delivered:
  "physical_value (fst (on_physical_axis cfg v vj s)) = v \<and>
   (samples_in_range es \<longrightarrow>
      - 1 \<le> physical_value (run cfg es init_instance) \<and>
      physical_value (run cfg es init_instance) \<le> 1) \<and>
   (snd (on_physical_axis cfg v vj s) = Some (d, i, out) \<longrightarrow> - 1 \<le> out \<and> out \<le> 1)"
proof (intro conjI impI)
  show "physical_value (fst (on_physical_axis cfg v vj s)) = v"
    by (simp add: on_physical_axis_def Let_def)
next
  assume ok: "samples_in_range es"
  have start: "- 1 \<le> physical_value init_instance" "physical_value init_instance \<le> 1"
    by (simp_all add: init_instance_def)
  from run_physical_range [OF ok start]
  show "- 1 \<le> physical_value (run cfg es init_instance)"
    and "physical_value (run cfg es init_instance) \<le> 1"
    by simp_all
next
  assume w: "snd (on_physical_axis cfg v vj s) = Some (d, i, out)"
  then have "update_output cfg (s\<lparr>vjoy_proxy := Some vj, physical_value := v\<rparr>) = Some (d, i, out)"
    by (simp add: on_physical_axis_def Let_def)
  then have "out = update_output_value cfg v (current_trim_offset s)"
    using update_output_written [of cfg "s\<lparr>vjoy_proxy := Some vj, physical_value := v\<rparr>" d i out]
    by simp
  then show "- 1 \<le> out" and "out \<le> 1"
    by (simp_all add: update_output_value_def)
qed

theorem physical_value_stored_as_delivered_witness:
  "samples_in_range [PhysicalAxis (1 / 2) one_axis, TrimUp True one_axis] \<and>
   - 1 \<le> physical_value (run scenario_additive [PhysicalAxis (1 / 2) one_axis, TrimUp True one_axis] init_instance) \<and>
   physical_value (run scenario_additive [PhysicalAxis (1 / 2) one_axis, TrimUp True one_axis] init_instance) \<le> 1 \<and>
   physical_value (fst (on_physical_axis scenario_additive 2 one_axis init_instance)) = 2 \<and>
   snd (on_physical_axis scenario_additive 2 one_axis init_instance) = Some (1, 1, 1) \<and>
   - 1 \<le> (1::real) \<and> (1::real) \<le> 1"
  using physical_value_stored_as_delivered
    [of scenario_additive 2 one_axis init_instance
        "[PhysicalAxis (1 / 2) one_axis, TrimUp True one_axis]" 1 1 1]
  by (simp add: on_physical_axis_def update_output_def update_output_value_def
      calculate_trimmed_output_def scenario_additive_def one_axis_def init_instance_def Let_def)

subsection \<open>The computed output\<close>

text \<open>
  C2, as stated, fails: \<^verbatim>\<open>calculate_trimmed_output\<close>, the function that returns the
  blended value, applies no clamp. In additive mode, physical value 1 and trim offset 1
  give 2, outside [-1, 1].
\<close>

theorem calculate_trimmed_output_unclamped_counterexample:
  "\<not> (- 1 \<le> calculate_trimmed_output scenario_additive 1 1 \<and>
      calculate_trimmed_output scenario_additive 1 1 \<le> 1)"
  by (simp add: calculate_trimmed_output_def scenario_additive_def)

text \<open>
  C2, amended: the final clamp is applied by \<^verbatim>\<open>update_output\<close> (line 136) to the value
  \<^verbatim>\<open>calculate_trimmed_output\<close> returns, whichever blending branch was taken: for every
  physical value and trim offset, in either mode, the output \<^verbatim>\<open>update_output\<close> computes
  is \<open>clamp blend (-1) 1\<close>, it lies in [-1, 1], and it is the value of any write
  \<^verbatim>\<open>update_output\<close> makes.
\<close>

theorem update_output_clamps_blend:
  "update_output_value cfg v t = clamp (calculate_trimmed_output cfg v t) (- 1) 1 \<and>
   - 1 \<le> update_output_value cfg v t \<and> update_output_value cfg v t \<le> 1 \<and>
   (update_output cfg s = Some (d, i, out) \<longrightarrow>
      out = clamp (calculate_trimmed_output cfg (physical_value s) (current_trim_offset s)) (- 1) 1 \<and>
      - 1 \<le> out \<and> out \<le> 1)"
proof (intro conjI impI)
  show eq: "update_output_value cfg v t = clamp (calculate_trimmed_output cfg v t) (- 1) 1"
    for v t
    by (simp add: update_output_value_def clamp_max_min)
  show "- 1 \<le> update_output_value cfg v t" and "update_output_value cfg v t \<le> 1"
    by (simp_all add: update_output_value_def)
  assume "update_output cfg s = Some (d, i, out)"
  then have out: "out = update_output_value cfg (physical_value s) (current_trim_offset s)"
    by (rule update_output_written)
  then show "out = clamp (calculate_trimmed_output cfg (physical_value s) (current_trim_offset s)) (- 1) 1"
    by (simp add: eq)
  from out show "- 1 \<le> out" and "out \<le> 1"
    by (simp_all add: update_output_value_def)
qed

theorem update_output_clamps_blend_witness:
  "update_output scenario_additive
     \<lparr>current_trim_value = 1, current_trim_offset = 1, physical_value = 1,
      vjoy_proxy = Some one_axis\<rparr> = Some (1, 1, 1) \<and>
   calculate_trimmed_output scenario_additive 1 1 = 2 \<and>
   clamp 2 (- 1) 1 = 1 \<and>
   update_output_value scenario_additive 1 1 = 1 \<and>
   update_output_value scenario_scaled (- (1 / 2)) (1 / 2) = - (1 / 4)"
  using update_output_clamps_blend
    [of scenario_additive 1 1
        "\<lparr>current_trim_value = 1, current_trim_offset = 1, physical_value = 1,
          vjoy_proxy = Some one_axis\<rparr>" 1 1 1]
    update_output_clamps_blend [of scenario_scaled "- (1 / 2)" "1 / 2"]
  by (simp add: update_output_def update_output_value_def calculate_trimmed_output_def
      scenario_additive_def scenario_scaled_def one_axis_def clamp_def Let_def)

text \<open>
  C3: in scaled mode \<^verbatim>\<open>calculate_trimmed_output\<close> is the four-branch algorithm of the
  spec, for every physical value and trim offset, and the computed output is its clamp
  to [-1, 1]. The function is total: no branch raises.
\<close>

theorem scaled_output_follows_spec:
  "enable_scaled_trim cfg \<Longrightarrow>
   calculate_trimmed_output cfg v t = spec_scaled_output v t \<and>
   update_output_value cfg v t = clamp (spec_scaled_output v t) (- 1) 1"
  by (simp add: calculate_trimmed_output_def spec_scaled_output_def
      update_output_value_def clamp_max_min Let_def)

theorem scaled_output_follows_spec_witness:
  "enable_scaled_trim scenario_scaled \<and>
   calculate_trimmed_output scenario_scaled 1 (199 / 200) = spec_scaled_output 1 (199 / 200) \<and>
   spec_scaled_output 1 (199 / 200) = 1 \<and>
   calculate_trimmed_output scenario_scaled (- (1 / 2)) (1 / 2) = spec_scaled_output (- (1 / 2)) (1 / 2) \<and>
   spec_scaled_output (- (1 / 2)) (1 / 2) = - (1 / 4)"
  using scaled_output_follows_spec [of scenario_scaled 1 "199 / 200"]
    scaled_output_follows_spec [of scenario_scaled "- (1 / 2)" "1 / 2"]
  by (simp add: scenario_scaled_def spec_scaled_output_def)

text \<open>
  C4: in additive mode, for a physical value \<open>v\<close> and a trim offset \<open>t\<close> in [-1, 1], the
  computed output is \<open>clamp (v + t) (-1) 1\<close>, and whenever \<^verbatim>\<open>update_output\<close> writes to
  the output axis, that is the value it writes. There is no error branch.
\<close>

theorem additive_output_is_clamped_sum:
  assumes "\<not> enable_scaled_trim cfg"
    and "- 1 \<le> v" "v \<le> 1" "- 1 \<le> t" "t \<le> 1"
    and "physical_value s = v" "current_trim_offset s = t"
  shows "update_output_value cfg v t = clamp (v + t) (- 1) 1 \<and>
         (update_output cfg s = None \<or>
          (\<exists>d i. update_output cfg s = Some (d, i, clamp (v + t) (- 1) 1)))"
proof
  show val: "update_output_value cfg v t = clamp (v + t) (- 1) 1"
    using assms(1)
    by (simp add: update_output_value_def calculate_trimmed_output_def clamp_max_min)
  show "update_output cfg s = None \<or>
        (\<exists>d i. update_output cfg s = Some (d, i, clamp (v + t) (- 1) 1))"
  proof (cases "update_output cfg s")
    case None
    then show ?thesis by simp
  next
    case (Some w)
    obtain d i out where w: "w = (d, i, out)" by (cases w) auto
    have "out = update_output_value cfg v t"
      using update_output_written [of cfg s d i out] Some w assms(6,7) by simp
    then show ?thesis using Some w val by simp
  qed
qed

theorem additive_output_is_clamped_sum_witness:
  "\<not> enable_scaled_trim scenario_additive \<and>
   - 1 \<le> (1 / 2 :: real) \<and> (1 / 2 :: real) \<le> 1 \<and> - 1 \<le> (1 / 5 :: real) \<and> (1 / 5 :: real) \<le> 1 \<and>
   physical_value (fst (adjust_trim scenario_additive (1 / 5)
       (fst (on_physical_axis scenario_additive (1 / 2) one_axis init_instance)))) = 1 / 2 \<and>
   current_trim_offset (fst (adjust_trim scenario_additive (1 / 5)
       (fst (on_physical_axis scenario_additive (1 / 2) one_axis init_instance)))) = 1 / 5 \<and>
   update_output_value scenario_additive (1 / 2) (1 / 5) = 7 / 10 \<and>
   clamp (1 / 2 + 1 / 5) (- 1) 1 = 7 / 10 \<and>
   update_output scenario_additive (fst (adjust_trim scenario_additive (1 / 5)
       (fst (on_physical_axis scenario_additive (1 / 2) one_axis init_instance)))) =
     Some (1, 1, 7 / 10)"
  using additive_output_is_clamped_sum
    [of scenario_additive "1 / 2" "1 / 5"
        "fst (adjust_trim scenario_additive (1 / 5)
           (fst (on_physical_axis scenario_additive (1 / 2) one_axis init_instance)))"]
  by (simp add: on_physical_axis_def adjust_trim_def update_output_def update_output_value_def
      calculate_trimmed_output_def scenario_additive_def one_axis_def init_instance_def
      clamp_def Let_def)

subsection \<open>The trim accumulator\<close>

text \<open>
  C5, as stated, fails: with the legal sensitivity 3.0 and increment 0.1, four presses
  of the trim-up button from the initial state give trim value 0.4 and trim offset 1.2.
\<close>

theorem trim_offset_exceeds_one_counterexample:
  "legal_config wide_config \<and>
   \<not> (current_trim_offset (run wide_config
        [TrimUp True one_axis, TrimUp True one_axis, TrimUp True one_axis, TrimUp True one_axis]
        init_instance) \<le> 1)"
  by (simp add: legal_config_def wide_config_def on_trim_up_def adjust_trim_def
      init_instance_def Let_def)

text \<open>
  C5, amended: in every reachable state, for every legal sensitivity, the trim offset
  lies within [-sensitivity, sensitivity], hence within [-3, 3]; it lies within [-1, 1]
  when the sensitivity is at most 1.
\<close>

theorem trim_offset_bounded_by_sensitivity:
  assumes "legal_config cfg"
  shows "\<bar>current_trim_offset (run cfg es init_instance)\<bar> \<le> trim_sensitivity cfg \<and>
         \<bar>current_trim_offset (run cfg es init_instance)\<bar> \<le> 3 \<and>
         (trim_sensitivity cfg \<le> 1 \<longrightarrow>
            - 1 \<le> current_trim_offset (run cfg es init_instance) \<and>
            current_trim_offset (run cfg es init_instance) \<le> 1)"
proof -
  have k: "0 \<le> trim_sensitivity cfg" "trim_sensitivity cfg \<le> 3"
    using assms by (simp_all add: legal_config_def)
  have inv: "trim_inv cfg (run cfg es init_instance)"
    using init_inv by (rule run_inv)
  then have "\<bar>current_trim_offset (run cfg es init_instance)\<bar> \<le> trim_sensitivity cfg"
    using k(1) by (simp add: trim_inv_def offset_abs_bound)
  then show ?thesis using k(2) by auto
qed

theorem trim_offset_bounded_by_sensitivity_witness:
  "legal_config wide_config \<and>
   current_trim_offset (run wide_config
        [TrimUp True one_axis, TrimUp True one_axis, TrimUp True one_axis, TrimUp True one_axis]
        init_instance) = 6 / 5 \<and>
   \<bar>6 / 5 :: real\<bar> \<le> trim_sensitivity wide_config \<and>
   legal_config scenario_scaled \<and> trim_sensitivity scenario_scaled \<le> 1 \<and>
   current_trim_offset (run scenario_scaled [TrimDown True one_axis] init_instance) = - (1 / 100)"
  using trim_offset_bounded_by_sensitivity [of wide_config
        "[TrimUp True one_axis, TrimUp True one_axis, TrimUp True one_axis, TrimUp True one_axis]"]
    trim_offset_bounded_by_sensitivity [of scenario_scaled "[TrimDown True one_axis]"]
  by (simp add: legal_config_def wide_config_def scenario_scaled_def on_trim_up_def
      on_trim_down_def adjust_trim_def init_instance_def Let_def)

text \<open>
  C6: for every delta and prior state, \<^verbatim>\<open>adjust_trim\<close> sets the trim value to
  \<open>clamp (trim value + delta) (-1) 1\<close> and the trim offset to the new trim value times
  the sensitivity; from trim value 0.9, any positive number of \<^verbatim>\<open>adjust_trim(+0.5)\<close>
  calls leaves the trim value at exactly 1.
\<close>

theorem adjust_trim_saturates:
  "current_trim_value (fst (adjust_trim cfg delta s)) = clamp (current_trim_value s + delta) (- 1) 1 \<and>
   current_trim_offset (fst (adjust_trim cfg delta s)) =
     clamp (current_trim_value s + delta) (- 1) 1 * trim_sensitivity cfg \<and>
   (current_trim_value s = 9 / 10 \<longrightarrow> 0 < n \<longrightarrow>
      current_trim_value (adjust_trim_times cfg (1 / 2) n s) = 1)"
proof (intro conjI impI)
  show "current_trim_value (fst (adjust_trim cfg delta s)) = clamp (current_trim_value s + delta) (- 1) 1"
    by (simp add: adjust_trim_value clamp_max_min)
  show "current_trim_offset (fst (adjust_trim cfg delta s)) =
        clamp (current_trim_value s + delta) (- 1) 1 * trim_sensitivity cfg"
    by (simp add: adjust_trim_offset adjust_trim_value clamp_max_min)
next
  assume start: "current_trim_value s = 9 / 10" and pos: "0 < n"
  from pos obtain m where n: "n = Suc m" by (cases n) auto
  have "current_trim_value (fst (adjust_trim cfg (1 / 2) s)) = 1"
    using start by (simp add: adjust_trim_value)
  then have "current_trim_value (adjust_trim_times cfg (1 / 2) m (fst (adjust_trim cfg (1 / 2) s))) = 1"
    by (rule adjust_trim_times_at_one)
  then show "current_trim_value (adjust_trim_times cfg (1 / 2) n s) = 1"
    using n by simp
qed

theorem adjust_trim_saturates_witness:
  "current_trim_value (init_instance\<lparr>current_trim_value := 9 / 10\<rparr>) = 9 / 10 \<and> (0::nat) < 3 \<and>
   current_trim_value (adjust_trim_times scenario_additive (1 / 2) 3
      (init_instance\<lparr>current_trim_value := 9 / 10\<rparr>)) = 1 \<and>
   current_trim_value (adjust_trim_times scenario_additive (1 / 2) 1
      (init_instance\<lparr>current_trim_value := 9 / 10\<rparr>)) = 1"
  using adjust_trim_saturates [of scenario_additive 0 "init_instance\<lparr>current_trim_value := 9 / 10\<rparr>" 3]
    adjust_trim_saturates [of scenario_additive 0 "init_instance\<lparr>current_trim_value := 9 / 10\<rparr>" 1]
  by simp

text \<open>
  C7: for every prior state, \<^verbatim>\<open>reset_trim\<close> sets the trim value and the trim offset to 0
  and touches nothing else; in particular right after an adjustment that saturated the
  trim value.
\<close>

theorem reset_trim_zero:
  "current_trim_value (fst (reset_trim cfg s)) = 0 \<and>
   current_trim_offset (fst (reset_trim cfg s)) = 0 \<and>
   physical_value (fst (reset_trim cfg s)) = physical_value s \<and>
   vjoy_proxy (fst (reset_trim cfg s)) = vjoy_proxy s \<and>
   current_trim_value (fst (reset_trim cfg (fst (adjust_trim cfg delta s)))) = 0 \<and>
   current_trim_offset (fst (reset_trim cfg (fst (adjust_trim cfg delta s)))) = 0"
  by (simp add: reset_trim_def Let_def)

text \<open>
  C8: after every sequence of operations from the initial instance (physical samples,
  trim up, trim down, reset, plugin initialisation) the trim offset equals the trim value
  times the sensitivity, and each single operation keeps that equation.
\<close>

theorem trim_offset_derived:
  "current_trim_offset (run cfg es init_instance) =
     current_trim_value (run cfg es init_instance) * trim_sensitivity cfg \<and>
   (current_trim_offset s = current_trim_value s * trim_sensitivity cfg \<longrightarrow>
      current_trim_offset (fst (handle cfg e s)) =
        current_trim_value (fst (handle cfg e s)) * trim_sensitivity cfg)"
proof
  have "trim_inv cfg (run cfg es init_instance)"
    using init_inv by (rule run_inv)
  then show "current_trim_offset (run cfg es init_instance) =
     current_trim_value (run cfg es init_instance) * trim_sensitivity cfg"
    by (simp add: trim_inv_def)
  show "current_trim_offset s = current_trim_value s * trim_sensitivity cfg \<longrightarrow>
      current_trim_offset (fst (handle cfg e s)) =
        current_trim_value (fst (handle cfg e s)) * trim_sensitivity cfg"
    by (cases e)
       (auto simp: on_physical_axis_def on_trim_up_def on_trim_down_def
          on_reset_def plugin_init_def adjust_trim_def reset_trim_def Let_def)
qed

theorem trim_offset_derived_witness:
  "current_trim_offset (fst (adjust_trim wide_config (1 / 10) init_instance)) =
     current_trim_value (fst (adjust_trim wide_config (1 / 10) init_instance)) * trim_sensitivity wide_config \<and>
   current_trim_offset (fst (handle wide_config (PhysicalAxis (1 / 2) one_axis)
       (fst (adjust_trim wide_config (1 / 10) init_instance)))) = 3 / 10 \<and>
   current_trim_value (fst (handle wide_config (PhysicalAxis (1 / 2) one_axis)
       (fst (adjust_trim wide_config (1 / 10) init_instance)))) * trim_sensitivity wide_config = 3 / 10"
  using trim_offset_derived [of wide_config "[]"
      "fst (adjust_trim wide_config (1 / 10) init_instance)" "PhysicalAxis (1 / 2) one_axis"]
  by (simp add: on_physical_axis_def adjust_trim_def wide_config_def init_instance_def Let_def)

subsection \<open>Scaled mode in double precision: reach and saturation\<close>




text \<open>
  C10, as stated, fails on doubles at the boundary. At trim offset 0.99 the condition
  \<^verbatim>\<open>trim_offset >= 0.99\<close> holds, but \<^verbatim>\<open>1.0 - 0.99\<close> evaluates to 0.010000000000000009,
  which is greater than \<^verbatim>\<open>0.01\<close>: the blend branch is taken and a centred stick gives
  0.99, not 1.0. Likewise trim offset -0.99 with physical value -0.5 gives -0.995.
\<close>

theorem scaled_saturation_boundary_double_counterexample:
  "enable_scaled_trim scenario_scaled \<and> is_double (rnd (99 / 100)) \<and>
   rnd (99 / 100) \<ge> rnd (99 / 100) \<and> (0::real) \<ge> 0 \<and>
   calculate_trimmed_output_double scenario_scaled 0 (rnd (99 / 100)) \<noteq> 1 \<and>
   update_output_value_double scenario_scaled 0 (rnd (99 / 100)) \<noteq> 1 \<and>
   - rnd (99 / 100) \<le> - rnd (99 / 100) \<and> - (1 / 2) < (0::real) \<and>
   update_output_value_double scenario_scaled (- (1 / 2)) (- rnd (99 / 100)) \<noteq> - 1"
proof -
  have a: "calculate_trimmed_output_double scenario_scaled 0 (rnd (99 / 100)) =
           4458563631096791 / 2 ^ 52"
    by code_simp
  have b: "calculate_trimmed_output_double scenario_scaled (- (1 / 2)) (- rnd (99 / 100)) =
           - (8962163258467287 / 2 ^ 53)"
    by code_simp
  show ?thesis
    unfolding update_output_value_double_def a b
    using is_double_lit_099 by (simp add: scenario_scaled_def)
qed

text \<open>
  C10, amended: in scaled mode, on doubles, whenever the trim offset is greater than
  0.99 the output is exactly 1 for every physical value \<open>\<ge> 0\<close>, a centred stick
  included, before and after the final clamp; whenever the trim offset is less than
  -0.99 the computed (clamped) output is exactly -1 for every physical value \<open>< 0\<close>, and
  already before the clamp when the trim offset is at least -1. At the trim offsets
  0.99 and -0.99 themselves the blend branch is taken.
\<close>

theorem scaled_saturation_double:
  assumes "enable_scaled_trim cfg" "is_double t"
  shows "(rnd (99 / 100) < t \<longrightarrow> 0 \<le> v \<longrightarrow>
            calculate_trimmed_output_double cfg v t = 1 \<and>
            update_output_value_double cfg v t = 1) \<and>
         (t < - rnd (99 / 100) \<longrightarrow> v < 0 \<longrightarrow> update_output_value_double cfg v t = - 1) \<and>
         (t < - rnd (99 / 100) \<longrightarrow> - 1 \<le> t \<longrightarrow> v < 0 \<longrightarrow>
            calculate_trimmed_output_double cfg v t = - 1)"
proof (intro conjI impI)
  assume t: "rnd (99 / 100) < t" and v: "0 \<le> v"
  have "rnd (1 - t) \<le> rnd (1 / 100)" using assms(2) t by (rule headroom_small)
  moreover have "0 \<le> t" using t by (simp add: lit_099)
  ultimately show raw: "calculate_trimmed_output_double cfg v t = 1"
    using assms(1) v by (simp add: calculate_trimmed_output_double_def fsub_def Let_def)
  show "update_output_value_double cfg v t = 1"
    by (simp add: update_output_value_double_def raw)
next
  assume t: "t < - rnd (99 / 100)" and t1: "- 1 \<le> t" and v: "v < 0"
  have "rnd (1 - (- t)) \<le> rnd (1 / 100)"
    using assms(2) t by (intro headroom_small) (simp_all add: is_double_uminus)
  moreover have "0 \<le> rnd (1 + t)" using t1 by (intro rnd_nonneg) simp
  moreover have "rnd (- 1 - t) = - rnd (1 + t)"
    using rnd_uminus [of "1 + t"] by (simp add: algebra_simps)
  moreover have "t \<le> 0" using t by (simp add: lit_099)
  ultimately show "calculate_trimmed_output_double cfg v t = - 1"
    using assms(1) v by (simp add: calculate_trimmed_output_double_def fsub_def Let_def)
next
  assume t: "t < - rnd (99 / 100)" and v: "v < 0"
  have t0: "t \<le> 0" using t by (simp add: lit_099)
  show "update_output_value_double cfg v t = - 1"
  proof (cases "\<bar>fsub (- 1) t\<bar> > rnd (1 / 100)")
    case False
    then have "calculate_trimmed_output_double cfg v t = - 1"
      using assms(1) v t0 by (simp add: calculate_trimmed_output_double_def Let_def)
    then show ?thesis by (simp add: update_output_value_double_def)
  next
    case True
    have t1: "t \<le> - 1"
    proof (rule ccontr)
      assume "\<not> t \<le> - 1"
      then have "- 1 \<le> t" by simp
      have "rnd (1 - (- t)) \<le> rnd (1 / 100)"
        using assms(2) t by (intro headroom_small) (simp_all add: is_double_uminus)
      moreover have "0 \<le> rnd (1 + t)" using \<open>- 1 \<le> t\<close> by (intro rnd_nonneg) simp
      moreover have "rnd (- 1 - t) = - rnd (1 + t)"
        using rnd_uminus [of "1 + t"] by (simp add: algebra_simps)
      ultimately show False using True by (simp add: fsub_def)
    qed
    have "rnd (v * \<bar>fsub (- 1) t\<bar>) \<le> 0"
      using v by (intro rnd_nonpos) (simp add: mult_nonpos_nonneg)
    then have "t + rnd (v * \<bar>fsub (- 1) t\<bar>) \<le> - 1" using t1 by simp
    then have "rnd (t + rnd (v * \<bar>fsub (- 1) t\<bar>)) \<le> rnd (- 1)" by (rule rnd_mono)
    then have "calculate_trimmed_output_double cfg v t \<le> - 1"
      using assms(1) v t0 True
      by (simp add: calculate_trimmed_output_double_def Let_def fadd_def fmul_def rnd_minus_one)
    then show ?thesis by (simp add: update_output_value_double_def)
  qed
qed

theorem scaled_saturation_double_witness:
  "enable_scaled_trim scenario_scaled \<and> is_double (8917127262193583 / 2 ^ 53) \<and>
   rnd (99 / 100) < 8917127262193583 / 2 ^ 53 \<and> (0::real) \<le> 0 \<and>
   update_output_value_double scenario_scaled 0 (8917127262193583 / 2 ^ 53) = 1 \<and>
   is_double (- (8917127262193583 / 2 ^ 53)) \<and>
   - (8917127262193583 / 2 ^ 53) < - rnd (99 / 100) \<and>
   - 1 \<le> - (8917127262193583 / 2 ^ 53 :: real) \<and> - (1 / 2) < (0::real) \<and>
   calculate_trimmed_output_double scenario_scaled (- (1 / 2)) (- (8917127262193583 / 2 ^ 53)) = - 1 \<and>
   update_output_value_double scenario_scaled (- (1 / 2)) (- (8917127262193583 / 2 ^ 53)) = - 1"
proof -
  have sc: "enable_scaled_trim scenario_scaled" by (simp add: scenario_scaled_def)
  have d: "is_double (8917127262193583 / 2 ^ 53)" by (rule is_double_above_099)
  have d': "is_double (- (8917127262193583 / 2 ^ 53))" using d by (simp only: is_double_uminus)
  have r: "rnd (99 / 100) < 8917127262193583 / 2 ^ 53" by (simp add: lit_099)
  have r': "- (8917127262193583 / 2 ^ 53) < - rnd (99 / 100)" using r by simp
  show ?thesis
    using scaled_saturation_double [OF sc d, of 0]
      scaled_saturation_double [OF sc d', of "- (1 / 2)"] sc d d' r r'
    by simp
qed

end
